theory Spec2Isabelle
  imports Main "HOL-Library.Word"
begin

section \<open>Values shared by the server modules\<close>

text \<open>
  A thrown JavaScript \<open>Error\<close> is a value carrying its message; a function that may throw
  returns \<open>error + 'a\<close>, with \<open>Inl\<close> for the thrown error. A \<open>Buffer\<close> is a list of bytes,
  a \<open>Date\<close> the number of milliseconds since the epoch. JavaScript numbers are modelled
  as integers (lengths, counts and percentages below \<open>2 ^ 53\<close>).
\<close>

datatype error = Error string

fun message :: "error \<Rightarrow> string" where
  "message (Error m) = m"

type_synonym Buffer = "8 word list"

type_synonym Date = nat

section \<open>PDFProcessor (server/services/pdfProcessor.ts)\<close>

record PDFProcessingResult =
  pdf_text :: string
  pdf_pages :: nat

text \<open>
  \<open>buffer.slice(0, 4).toString() === '%PDF'\<close>: the first four bytes (fewer when the
  buffer is shorter) decoded as UTF-8 are the four ASCII characters \<open>%PDF\<close>, which is
  the case exactly when those bytes are 0x25 0x50 0x44 0x46.
\<close>

definition pdf_signature :: Buffer where
  "pdf_signature = [0x25, 0x50, 0x44, 0x46]"

definition validatePDF :: "Buffer \<Rightarrow> bool" where
  "validatePDF buffer = (take 4 buffer = pdf_signature)"

definition getFileSize :: "Buffer \<Rightarrow> int" where
  "getFileSize buffer = int (length buffer)"

text \<open>The parameter \<open>maxSizeMB\<close> has the default 10, taken when the caller passes nothing.\<close>

definition isFileSizeValid :: "Buffer \<Rightarrow> int option \<Rightarrow> bool" where
  "isFileSizeValid buffer maxSizeMB =
     (let maxSizeBytes = (case maxSizeMB of None \<Rightarrow> 10 | Some m \<Rightarrow> m) * 1024 * 1024
      in getFileSize buffer \<le> maxSizeBytes)"

section \<open>The schema types (shared/schema.ts)\<close>

text \<open>
  A row type is a record. A nullable column holds \<open>None\<close> for \<open>null\<close>. In an insert
  type an optional nullable field is \<open>'a option option\<close>: \<open>None\<close> when the field is absent
  (\<open>undefined\<close>), \<open>Some None\<close> when it is \<open>null\<close>. Field names carry the entity as a
  prefix, since several entities share \<open>id\<close>, \<open>userId\<close> and \<open>createdAt\<close>.
\<close>

record User =
  user_id :: string
  user_username :: string
  user_password :: string
  user_email :: string
  user_createdAt :: "Date option"

record InsertUser =
  iuser_username :: string
  iuser_password :: string
  iuser_email :: string

record Document =
  doc_id :: string
  doc_userId :: "string option"
  doc_filename :: string
  doc_content :: string
  doc_uploadedAt :: "Date option"

record InsertDocument =
  idoc_userId :: "string option option"
  idoc_filename :: string
  idoc_content :: string

record Requirement =
  req_id :: string
  req_documentId :: "string option"
  req_userId :: "string option"
  req_text :: string
  req_phase :: string
  req_confidence :: int
  req_userStory :: "string option"
  req_createdAt :: "Date option"

record InsertRequirement =
  ireq_documentId :: "string option option"
  ireq_userId :: "string option option"
  ireq_text :: string
  ireq_phase :: string
  ireq_confidence :: int
  ireq_userStory :: "string option option"

text \<open>
  A code snippet is the one row that is updated in place, by a spread of a
  \<open>Partial<CodeSnippet>\<close>. TypeScript lets a partial carry a key whose value is
  \<open>undefined\<close>, and the spread copies that key, so a property of a stored snippet holds
  either a value of its column type or \<open>undefined\<close>.
\<close>

datatype 'a field = Undefined | Value 'a

record CodeSnippet =
  snip_id :: "string field"
  snip_userId :: "string option field"
  snip_title :: "string field"
  snip_description :: "string option field"
  snip_language :: "string field"
  snip_code :: "string field"
  snip_generatedCode :: "string option field"
  snip_type :: "string field"
  snip_createdAt :: "Date option field"

record InsertCodeSnippet =
  isnip_userId :: "string option option"
  isnip_title :: string
  isnip_description :: "string option option"
  isnip_language :: string
  isnip_code :: string
  isnip_generatedCode :: "string option option"
  isnip_type :: string

text \<open>
  \<open>Partial<CodeSnippet>\<close>: every key of the row, the identifier and the creation
  timestamp included, may be left out (\<open>None\<close>) or be present; a key that is present
  holds a value or \<open>undefined\<close>.
\<close>

record PartialCodeSnippet =
  psnip_id :: "string field option"
  psnip_userId :: "string option field option"
  psnip_title :: "string field option"
  psnip_description :: "string option field option"
  psnip_language :: "string field option"
  psnip_code :: "string field option"
  psnip_generatedCode :: "string option field option"
  psnip_type :: "string field option"
  psnip_createdAt :: "Date option field option"

record TestCase =
  test_id :: string
  test_userId :: "string option"
  test_codeSnippetId :: "string option"
  test_framework :: string
  test_testCode :: string
  test_coverage :: "int option"
  test_totalTests :: "int option"
  test_createdAt :: "Date option"

record InsertTestCase =
  itest_userId :: "string option option"
  itest_codeSnippetId :: "string option option"
  itest_framework :: string
  itest_testCode :: string
  itest_coverage :: "int option option"
  itest_totalTests :: "int option option"

record Documentation =
  docn_id :: string
  docn_userId :: "string option"
  docn_codeSnippetId :: "string option"
  docn_style :: string
  docn_overview :: "string option"
  docn_features :: "string list option"
  docn_methods :: "(string \<times> string) list option"
  docn_example :: "string option"
  docn_createdAt :: "Date option"

record InsertDocumentation =
  idocn_userId :: "string option option"
  idocn_codeSnippetId :: "string option option"
  idocn_style :: string
  idocn_overview :: "string option option"
  idocn_features :: "string list option option"
  idocn_methods :: "(string \<times> string) list option option"
  idocn_example :: "string option option"

record ChatMessage =
  chat_id :: string
  chat_userId :: "string option"
  chat_message :: string
  chat_response :: string
  chat_createdAt :: "Date option"

record InsertChatMessage =
  ichat_userId :: "string option option"
  ichat_message :: string
  ichat_response :: string

section \<open>MemStorage (server/storage.ts)\<close>

text \<open>
  A JavaScript \<open>Map\<close> keeps its entries in insertion order: it is an association list
  with one entry per key. \<open>set\<close> replaces the value of a key that is present, in
  place, and appends a new entry otherwise; \<open>get\<close> returns \<open>undefined\<close>
  (\<open>None\<close>) for a missing key.
\<close>

type_synonym ('k, 'v) js_map = "('k \<times> 'v) list"

fun map_set :: "('k, 'v) js_map \<Rightarrow> 'k \<Rightarrow> 'v \<Rightarrow> ('k, 'v) js_map" where
  "map_set [] k v = [(k, v)]"
| "map_set ((k', v') # m) k v =
     (if k' = k then (k, v) # m else (k', v') # map_set m k v)"

definition map_get :: "('k, 'v) js_map \<Rightarrow> 'k \<Rightarrow> 'v option" where
  "map_get m k = map_of m k"

definition map_values :: "('k, 'v) js_map \<Rightarrow> 'v list" where
  "map_values m = map snd m"

text \<open>\<open>x ?? null\<close> on an optional nullable field.\<close>

fun or_null :: "'a option option \<Rightarrow> 'a option" where
  "or_null None = None"
| "or_null (Some x) = x"

record MemStorage =
  users :: "(string, User) js_map"
  documents :: "(string, Document) js_map"
  requirements :: "(string, Requirement) js_map"
  codeSnippets :: "(string, CodeSnippet) js_map"
  testCases :: "(string, TestCase) js_map"
  documentations :: "(string, Documentation) js_map"
  chatMessages :: "(string, ChatMessage) js_map"

text \<open>The constructor stores the default user; \<open>now\<close> is the value of \<open>new Date()\<close>.\<close>

definition new_MemStorage :: "Date \<Rightarrow> MemStorage" where
  "new_MemStorage now =
     \<lparr>users = [(''default-user'',
         \<lparr>user_id = ''default-user'', user_username = ''developer'',
          user_password = ''password'', user_email = ''dev@company.com'',
          user_createdAt = Some now\<rparr>)],
      documents = [], requirements = [], codeSnippets = [], testCases = [],
      documentations = [], chatMessages = []\<rparr>"

text \<open>
  Every create operation draws an identifier from \<open>randomUUID()\<close> and a timestamp from
  \<open>new Date()\<close>; both come from the environment and are arguments (\<open>uuid\<close>, \<open>now\<close>) here.
  Each operation returns its result together with the storage after it.
\<close>

definition getUser :: "MemStorage \<Rightarrow> string \<Rightarrow> User option" where
  "getUser s i = map_get (users s) i"

definition getUserByUsername :: "MemStorage \<Rightarrow> string \<Rightarrow> User option" where
  "getUserByUsername s username =
     find (\<lambda>user. user_username user = username) (map_values (users s))"

definition createUser :: "InsertUser \<Rightarrow> string \<Rightarrow> Date \<Rightarrow> MemStorage \<Rightarrow> User \<times> MemStorage" where
  "createUser insertUser uuid now s =
     (let user = \<lparr>user_id = uuid, user_username = iuser_username insertUser,
                  user_password = iuser_password insertUser,
                  user_email = iuser_email insertUser, user_createdAt = Some now\<rparr>
      in (user, s\<lparr>users := map_set (users s) uuid user\<rparr>))"

definition createDocument ::
  "InsertDocument \<Rightarrow> string \<Rightarrow> Date \<Rightarrow> MemStorage \<Rightarrow> Document \<times> MemStorage" where
  "createDocument insertDocument uuid now s =
     (let document = \<lparr>doc_id = uuid, doc_userId = or_null (idoc_userId insertDocument),
                      doc_filename = idoc_filename insertDocument,
                      doc_content = idoc_content insertDocument,
                      doc_uploadedAt = Some now\<rparr>
      in (document, s\<lparr>documents := map_set (documents s) uuid document\<rparr>))"

definition getDocumentsByUserId :: "MemStorage \<Rightarrow> string \<Rightarrow> Document list" where
  "getDocumentsByUserId s userId =
     filter (\<lambda>doc. doc_userId doc = Some userId) (map_values (documents s))"

definition getDocument :: "MemStorage \<Rightarrow> string \<Rightarrow> Document option" where
  "getDocument s i = map_get (documents s) i"

definition createRequirement ::
  "InsertRequirement \<Rightarrow> string \<Rightarrow> Date \<Rightarrow> MemStorage \<Rightarrow> Requirement \<times> MemStorage" where
  "createRequirement insertRequirement uuid now s =
     (let requirement =
        \<lparr>req_id = uuid,
         req_documentId = or_null (ireq_documentId insertRequirement),
         req_userId = or_null (ireq_userId insertRequirement),
         req_text = ireq_text insertRequirement,
         req_phase = ireq_phase insertRequirement,
         req_confidence = ireq_confidence insertRequirement,
         req_userStory = or_null (ireq_userStory insertRequirement),
         req_createdAt = Some now\<rparr>
      in (requirement, s\<lparr>requirements := map_set (requirements s) uuid requirement\<rparr>))"

definition getRequirementsByDocumentId :: "MemStorage \<Rightarrow> string \<Rightarrow> Requirement list" where
  "getRequirementsByDocumentId s documentId =
     filter (\<lambda>req. req_documentId req = Some documentId) (map_values (requirements s))"

definition getRequirementsByUserId :: "MemStorage \<Rightarrow> string \<Rightarrow> Requirement list" where
  "getRequirementsByUserId s userId =
     filter (\<lambda>req. req_userId req = Some userId) (map_values (requirements s))"

definition createCodeSnippet ::
  "InsertCodeSnippet \<Rightarrow> string \<Rightarrow> Date \<Rightarrow> MemStorage \<Rightarrow> CodeSnippet \<times> MemStorage" where
  "createCodeSnippet insertSnippet uuid now s =
     (let snippet =
        \<lparr>snip_id = Value uuid,
         snip_userId = Value (or_null (isnip_userId insertSnippet)),
         snip_title = Value (isnip_title insertSnippet),
         snip_description = Value (or_null (isnip_description insertSnippet)),
         snip_language = Value (isnip_language insertSnippet),
         snip_code = Value (isnip_code insertSnippet),
         snip_generatedCode = Value (or_null (isnip_generatedCode insertSnippet)),
         snip_type = Value (isnip_type insertSnippet),
         snip_createdAt = Value (Some now)\<rparr>
      in (snippet, s\<lparr>codeSnippets := map_set (codeSnippets s) uuid snippet\<rparr>))"

definition getCodeSnippetsByUserId :: "MemStorage \<Rightarrow> string \<Rightarrow> CodeSnippet list" where
  "getCodeSnippetsByUserId s userId =
     filter (\<lambda>snippet. snip_userId snippet = Value (Some userId))
       (map_values (codeSnippets s))"

definition getCodeSnippet :: "MemStorage \<Rightarrow> string \<Rightarrow> CodeSnippet option" where
  "getCodeSnippet s i = map_get (codeSnippets s) i"

text \<open>
  \<open>{ ...existing, ...updates }\<close>: every key that \<open>updates\<close> has replaces the existing
  property, also when its value is \<open>undefined\<close>; a key it lacks leaves the property.
\<close>

fun spread :: "'a \<Rightarrow> 'a option \<Rightarrow> 'a" where
  "spread old None = old"
| "spread old (Some new) = new"

definition merge_snippet :: "CodeSnippet \<Rightarrow> PartialCodeSnippet \<Rightarrow> CodeSnippet" where
  "merge_snippet existing updates =
     \<lparr>snip_id = spread (snip_id existing) (psnip_id updates),
      snip_userId = spread (snip_userId existing) (psnip_userId updates),
      snip_title = spread (snip_title existing) (psnip_title updates),
      snip_description = spread (snip_description existing) (psnip_description updates),
      snip_language = spread (snip_language existing) (psnip_language updates),
      snip_code = spread (snip_code existing) (psnip_code updates),
      snip_generatedCode = spread (snip_generatedCode existing) (psnip_generatedCode updates),
      snip_type = spread (snip_type existing) (psnip_type updates),
      snip_createdAt = spread (snip_createdAt existing) (psnip_createdAt updates)\<rparr>"

definition updateCodeSnippet ::
  "string \<Rightarrow> PartialCodeSnippet \<Rightarrow> MemStorage \<Rightarrow> CodeSnippet option \<times> MemStorage" where
  "updateCodeSnippet i updates s =
     (case map_get (codeSnippets s) i of
        Some existing \<Rightarrow>
          (let updated = merge_snippet existing updates
           in (Some updated, s\<lparr>codeSnippets := map_set (codeSnippets s) i updated\<rparr>))
      | None \<Rightarrow> (None, s))"

definition createTestCase ::
  "InsertTestCase \<Rightarrow> string \<Rightarrow> Date \<Rightarrow> MemStorage \<Rightarrow> TestCase \<times> MemStorage" where
  "createTestCase insertTestCase uuid now s =
     (let testCase =
        \<lparr>test_id = uuid,
         test_userId = or_null (itest_userId insertTestCase),
         test_codeSnippetId = or_null (itest_codeSnippetId insertTestCase),
         test_framework = itest_framework insertTestCase,
         test_testCode = itest_testCode insertTestCase,
         test_coverage = or_null (itest_coverage insertTestCase),
         test_totalTests = or_null (itest_totalTests insertTestCase),
         test_createdAt = Some now\<rparr>
      in (testCase, s\<lparr>testCases := map_set (testCases s) uuid testCase\<rparr>))"

definition getTestCasesByUserId :: "MemStorage \<Rightarrow> string \<Rightarrow> TestCase list" where
  "getTestCasesByUserId s userId =
     filter (\<lambda>test. test_userId test = Some userId) (map_values (testCases s))"

definition getTestCasesByCodeSnippetId :: "MemStorage \<Rightarrow> string \<Rightarrow> TestCase list" where
  "getTestCasesByCodeSnippetId s codeSnippetId =
     filter (\<lambda>test. test_codeSnippetId test = Some codeSnippetId) (map_values (testCases s))"

definition createDocumentation ::
  "InsertDocumentation \<Rightarrow> string \<Rightarrow> Date \<Rightarrow> MemStorage \<Rightarrow> Documentation \<times> MemStorage" where
  "createDocumentation insertDocumentation uuid now s =
     (let documentation =
        \<lparr>docn_id = uuid,
         docn_userId = or_null (idocn_userId insertDocumentation),
         docn_codeSnippetId = or_null (idocn_codeSnippetId insertDocumentation),
         docn_style = idocn_style insertDocumentation,
         docn_overview = or_null (idocn_overview insertDocumentation),
         docn_features = or_null (idocn_features insertDocumentation),
         docn_methods = or_null (idocn_methods insertDocumentation),
         docn_example = or_null (idocn_example insertDocumentation),
         docn_createdAt = Some now\<rparr>
      in (documentation,
          s\<lparr>documentations := map_set (documentations s) uuid documentation\<rparr>))"

definition getDocumentationsByUserId :: "MemStorage \<Rightarrow> string \<Rightarrow> Documentation list" where
  "getDocumentationsByUserId s userId =
     filter (\<lambda>doc. docn_userId doc = Some userId) (map_values (documentations s))"

definition getDocumentationsByCodeSnippetId :: "MemStorage \<Rightarrow> string \<Rightarrow> Documentation list" where
  "getDocumentationsByCodeSnippetId s codeSnippetId =
     filter (\<lambda>doc. docn_codeSnippetId doc = Some codeSnippetId)
       (map_values (documentations s))"

definition createChatMessage ::
  "InsertChatMessage \<Rightarrow> string \<Rightarrow> Date \<Rightarrow> MemStorage \<Rightarrow> ChatMessage \<times> MemStorage" where
  "createChatMessage insertMessage uuid now s =
     (let message =
        \<lparr>chat_id = uuid,
         chat_userId = or_null (ichat_userId insertMessage),
         chat_message = ichat_message insertMessage,
         chat_response = ichat_response insertMessage,
         chat_createdAt = Some now\<rparr>
      in (message, s\<lparr>chatMessages := map_set (chatMessages s) uuid message\<rparr>))"

definition getChatMessagesByUserId :: "MemStorage \<Rightarrow> string \<Rightarrow> ChatMessage list" where
  "getChatMessagesByUserId s userId =
     filter (\<lambda>msg. chat_userId msg = Some userId) (map_values (chatMessages s))"

section \<open>OpenAIService (server/services/openai.ts)\<close>

text \<open>
  Each operation builds a prompt from its arguments, calls the chat-completions endpoint
  and reads \<open>JSON.parse(content || "{}")\<close>. The endpoint and the parser are outside the
  repository: an operation takes that step as a function \<open>openai\<close> of the values the
  prompt is built from, which returns \<open>Inl\<close> when the call or the parse throws and
  otherwise the parsed object. The object is read at the types the service's interfaces
  declare for it; a member the model left out (or sent as \<open>null\<close>) is \<open>None\<close>.
\<close>

record ClassificationItem =
  item_text :: string
  item_phase :: string
  item_confidence :: int
  item_userStory :: string

record Statistics =
  Requirements :: int
  Design :: int
  Development :: int
  Testing :: int
  Deployment :: int

record ClassificationReply =
  reply_requirements :: "ClassificationItem list option"
  reply_statistics :: "Statistics option"

record ClassificationResult =
  cr_requirements :: "ClassificationItem list"
  cr_statistics :: Statistics

definition phase_labels :: "string list" where
  "phase_labels = [''Requirements'', ''Design'', ''Development'', ''Testing'', ''Deployment'']"

text \<open>\<open>statistics.hasOwnProperty(key)\<close>: the object has exactly the five label keys.\<close>

definition hasOwnProperty :: "Statistics \<Rightarrow> string \<Rightarrow> bool" where
  "hasOwnProperty statistics key = (key \<in> set phase_labels)"

text \<open>
  \<open>statistics[key]++\<close>. The callback reaches it only for a key the object has; the
  last branch, for any other key, is never taken.
\<close>

definition increment :: "Statistics \<Rightarrow> string \<Rightarrow> Statistics" where
  "increment statistics key =
     (if key = ''Requirements'' then statistics\<lparr>Requirements := Requirements statistics + 1\<rparr>
      else if key = ''Design'' then statistics\<lparr>Design := Design statistics + 1\<rparr>
      else if key = ''Development'' then statistics\<lparr>Development := Development statistics + 1\<rparr>
      else if key = ''Testing'' then statistics\<lparr>Testing := Testing statistics + 1\<rparr>
      else if key = ''Deployment'' then statistics\<lparr>Deployment := Deployment statistics + 1\<rparr>
      else statistics)"

text \<open>The body of the \<open>forEach\<close> callback, and the loop over the items.\<close>

definition count_item :: "Statistics \<Rightarrow> ClassificationItem \<Rightarrow> Statistics" where
  "count_item statistics req =
     (if hasOwnProperty statistics (item_phase req)
      then increment statistics (item_phase req) else statistics)"

fun forEach_count :: "ClassificationItem list \<Rightarrow> Statistics \<Rightarrow> Statistics" where
  "forEach_count [] statistics = statistics"
| "forEach_count (req # reqs) statistics = forEach_count reqs (count_item statistics req)"

text \<open>\<open>x || d\<close> on an optional array, string and number: an array is always truthy,
  the empty string and the number 0 are falsy.\<close>

fun or_array :: "'a list option \<Rightarrow> 'a list \<Rightarrow> 'a list" where
  "or_array None d = d"
| "or_array (Some xs) d = xs"

fun or_string :: "string option \<Rightarrow> string \<Rightarrow> string" where
  "or_string None d = d"
| "or_string (Some x) d = (if x = [] then d else x)"

fun or_number :: "int option \<Rightarrow> int \<Rightarrow> int" where
  "or_number None d = d"
| "or_number (Some n) d = (if n = 0 then d else n)"

text \<open>A parameter default: taken when the argument is \<open>undefined\<close>.\<close>

fun default_arg :: "'a option \<Rightarrow> 'a \<Rightarrow> 'a" where
  "default_arg None d = d"
| "default_arg (Some x) d = x"

definition classifyRequirements ::
  "(string \<Rightarrow> error + ClassificationReply) \<Rightarrow> string \<Rightarrow> error + ClassificationResult" where
  "classifyRequirements openai text_in =
     (case openai text_in of
        Inl e \<Rightarrow> Inl (Error (''Requirements classification failed: '' @ message e))
      | Inr result \<Rightarrow>
          (let statistics =
                 \<lparr>Requirements = 0, Design = 0, Development = 0, Testing = 0, Deployment = 0\<rparr>;
               statistics =
                 (case reply_requirements result of
                    None \<Rightarrow> statistics
                  | Some reqs \<Rightarrow> forEach_count reqs statistics)
           in Inr \<lparr>cr_requirements = or_array (reply_requirements result) [],
                   cr_statistics = statistics\<rparr>))"

record BugFixReply =
  reply_fixedCode :: "string option"
  reply_issues :: "string list option"
  reply_optimizations :: "string list option"

record BugFixResult =
  fixedCode :: string
  issues :: "string list"
  optimizations :: "string list"

text \<open>\<open>openai language code\<close>: the prompt is built from the language and the code.\<close>

definition fixBugs ::
  "(string \<Rightarrow> string \<Rightarrow> error + BugFixReply) \<Rightarrow> string \<Rightarrow> string option \<Rightarrow> error + BugFixResult"
  where
  "fixBugs openai code language_arg =
     (let language = default_arg language_arg ''python''
      in case openai language code of
           Inl e \<Rightarrow> Inl (Error (''Bug fixing failed: '' @ message e))
         | Inr result \<Rightarrow>
             Inr \<lparr>fixedCode = or_string (reply_fixedCode result) code,
                  issues = or_array (reply_issues result) [],
                  optimizations = or_array (reply_optimizations result) []\<rparr>)"

record TestReply =
  reply_testCode :: "string option"
  reply_coverage :: "int option"
  reply_totalTests :: "int option"
  reply_positiveTests :: "int option"
  reply_negativeTests :: "int option"

record TestGenerationResult =
  testCode :: string
  coverage :: int
  totalTests :: int
  positiveTests :: int
  negativeTests :: int

text \<open>\<open>openai inputLabel framework code\<close>: the three values the prompt is built from.\<close>

definition generateTestCases ::
  "(string \<Rightarrow> string \<Rightarrow> string \<Rightarrow> error + TestReply) \<Rightarrow>
   string \<Rightarrow> string option \<Rightarrow> string option \<Rightarrow> error + TestGenerationResult" where
  "generateTestCases openai code framework_arg inputType_arg =
     (let framework = default_arg framework_arg ''unittest'';
          inputType = default_arg inputType_arg ''code'';
          inputLabel = (if inputType = ''code'' then ''code'' else ''requirements'')
      in case openai inputLabel framework code of
           Inl e \<Rightarrow> Inl (Error (''Test generation failed: '' @ message e))
         | Inr result \<Rightarrow>
             Inr \<lparr>testCode = or_string (reply_testCode result) [],
                  coverage = or_number (reply_coverage result) 0,
                  totalTests = or_number (reply_totalTests result) 0,
                  positiveTests = or_number (reply_positiveTests result) 0,
                  negativeTests = or_number (reply_negativeTests result) 0\<rparr>)"

section \<open>The request handlers (server/routes.ts)\<close>

text \<open>
  A handler answers with \<open>res.status(n).json({error})\<close> (\<open>Failure n error\<close>) or with
  \<open>res.json(body)\<close>, status 200 (\<open>Success body\<close>). Its outcome is the response, the
  storage after the request and the calls it made to \<open>pdfProcessor.extractText\<close>, in
  order. \<open>fresh k\<close> is the identifier and the time that the \<open>k\<close>-th create operation of
  the request draws from \<open>randomUUID()\<close> and \<open>new Date()\<close>.
\<close>

datatype 'a response = Failure nat string | Success 'a

fun status :: "'a response \<Rightarrow> nat" where
  "status (Failure n e) = n"
| "status (Success body) = 200"

record 'a outcome =
  out_response :: "'a response"
  out_storage :: MemStorage
  out_extracted :: "Buffer list"

definition DEFAULT_USER_ID :: string where
  "DEFAULT_USER_ID = ''default-user''"

text \<open>
  \<open>req.file\<close> as multer's memory storage fills it, \<open>None\<close> when the request carries no
  file. The multer middleware in front of the handler (its MIME filter and its own size
  limit) belongs to the library and is not part of the handler.
\<close>

record UploadedFile =
  file_filename :: "string option"
  file_buffer :: Buffer

record UploadBody =
  up_document :: Document
  up_requirements :: "Requirement list"
  up_statistics :: Statistics
  up_extractedText :: string

text \<open>The loop that saves the classified requirements; \<open>k\<close> counts the creates so far.\<close>

fun save_requirements ::
  "(nat \<Rightarrow> string \<times> Date) \<Rightarrow> nat \<Rightarrow> string \<Rightarrow> ClassificationItem list \<Rightarrow> MemStorage \<Rightarrow>
   Requirement list \<times> MemStorage" where
  "save_requirements fresh k documentId [] s = ([], s)"
| "save_requirements fresh k documentId (item # items) s =
     (let (requirement, s1) =
            createRequirement
              \<lparr>ireq_documentId = Some (Some documentId),
               ireq_userId = Some (Some DEFAULT_USER_ID),
               ireq_text = item_text item,
               ireq_phase = item_phase item,
               ireq_confidence = item_confidence item,
               ireq_userStory = Some (Some (item_userStory item))\<rparr>
              (fst (fresh k)) (snd (fresh k)) s;
          (rest, s2) = save_requirements fresh (Suc k) documentId items s1
      in (requirement # rest, s2))"

definition upload_handler ::
  "(Buffer \<Rightarrow> error + PDFProcessingResult) \<Rightarrow> (string \<Rightarrow> error + ClassificationReply) \<Rightarrow>
   (nat \<Rightarrow> string \<times> Date) \<Rightarrow> UploadedFile option \<Rightarrow> MemStorage \<Rightarrow> UploadBody outcome" where
  "upload_handler extractText openai fresh file s =
     (case file of
        None \<Rightarrow>
          \<lparr>out_response = Failure 400 ''No PDF file uploaded'', out_storage = s,
           out_extracted = []\<rparr>
      | Some f \<Rightarrow>
          (let buffer = file_buffer f in
           if \<not> validatePDF buffer then
             \<lparr>out_response = Failure 400 ''Invalid PDF file'', out_storage = s,
              out_extracted = []\<rparr>
           else if \<not> isFileSizeValid buffer None then
             \<lparr>out_response = Failure 400 ''File size exceeds 10MB limit'', out_storage = s,
              out_extracted = []\<rparr>
           else
             (case extractText buffer of
                Inl e \<Rightarrow>
                  \<lparr>out_response = Failure 500 (message e), out_storage = s,
                   out_extracted = [buffer]\<rparr>
              | Inr pdf \<Rightarrow>
                  (let (document, s1) =
                         createDocument
                           \<lparr>idoc_userId = Some (Some DEFAULT_USER_ID),
                            idoc_filename = or_string (file_filename f) ''uploaded.pdf'',
                            idoc_content = pdf_text pdf\<rparr>
                           (fst (fresh 0)) (snd (fresh 0)) s
                   in case classifyRequirements openai (pdf_text pdf) of
                        Inl e \<Rightarrow>
                          \<lparr>out_response = Failure 500 (message e), out_storage = s1,
                           out_extracted = [buffer]\<rparr>
                      | Inr classificationResult \<Rightarrow>
                          (let (reqs, s2) =
                                 save_requirements fresh 1 (doc_id document)
                                   (cr_requirements classificationResult) s1
                           in \<lparr>out_response =
                                  Success
                                    \<lparr>up_document = document, up_requirements = reqs,
                                     up_statistics = cr_statistics classificationResult,
                                     up_extractedText = take 500 (pdf_text pdf) @ ''...''\<rparr>,
                                out_storage = s2, out_extracted = [buffer]\<rparr>)))))"

text \<open>
  The route. \<open>upload.single('pdf')\<close> runs in front of the handler, configured with
  \<open>fileFilter\<close> and \<open>limits.fileSize\<close>. Multer calls the filter on the file part, then
  reads the part into memory; when the filter refuses the part, or the part is longer
  than the limit (multer's \<open>File too large\<close>), it passes an error on and the handler
  does not run. Neither error carries a status, and Express answers such an error with
  status 500. Memory storage sets no \<open>filename\<close>.
\<close>

record FilePart =
  part_mimetype :: string
  part_data :: Buffer

definition fileFilter :: "FilePart \<Rightarrow> error option" where
  "fileFilter file =
     (if part_mimetype file = ''application/pdf'' then None
      else Some (Error ''Only PDF files are allowed''))"

definition fileSize :: nat where
  "fileSize = 10 * 1024 * 1024"

definition upload_single :: "FilePart option \<Rightarrow> error + UploadedFile option" where
  "upload_single part =
     (case part of
        None \<Rightarrow> Inr None
      | Some file \<Rightarrow>
          (case fileFilter file of
             Some e \<Rightarrow> Inl e
           | None \<Rightarrow>
               if fileSize < length (part_data file) then Inl (Error ''File too large'')
               else Inr (Some \<lparr>file_filename = None, file_buffer = part_data file\<rparr>)))"

definition upload_route ::
  "(Buffer \<Rightarrow> error + PDFProcessingResult) \<Rightarrow> (string \<Rightarrow> error + ClassificationReply) \<Rightarrow>
   (nat \<Rightarrow> string \<times> Date) \<Rightarrow> FilePart option \<Rightarrow> MemStorage \<Rightarrow> UploadBody outcome" where
  "upload_route extractText openai fresh part s =
     (case upload_single part of
        Inl e \<Rightarrow>
          \<lparr>out_response = Failure 500 (message e), out_storage = s, out_extracted = []\<rparr>
      | Inr file \<Rightarrow> upload_handler extractText openai fresh file s)"

record TestsRequest =
  body_code :: "string option"
  body_framework :: "string option"
  body_inputType :: "string option"

record TestStatistics =
  total :: int
  positive :: int
  negative :: int

record TestsBody =
  tests_testCase :: TestCase
  tests_statistics :: TestStatistics

text \<open>
  \<open>if (!code)\<close>: the request is refused when \<open>code\<close> is missing or the empty string.
\<close>

definition code_required :: "MemStorage \<Rightarrow> TestsBody outcome" where
  "code_required s =
     \<lparr>out_response = Failure 400 ''Code or requirements are required'', out_storage = s,
      out_extracted = []\<rparr>"

definition tests_handler ::
  "(string \<Rightarrow> string \<Rightarrow> string \<Rightarrow> error + TestReply) \<Rightarrow> (nat \<Rightarrow> string \<times> Date) \<Rightarrow>
   TestsRequest \<Rightarrow> MemStorage \<Rightarrow> TestsBody outcome" where
  "tests_handler openai fresh body s =
     (case body_code body of
        None \<Rightarrow> code_required s
      | Some code \<Rightarrow>
          if code = [] then code_required s
          else
            (case generateTestCases openai code (body_framework body) (body_inputType body) of
               Inl e \<Rightarrow>
                 \<lparr>out_response = Failure 500 (message e), out_storage = s,
                  out_extracted = []\<rparr>
             | Inr testResult \<Rightarrow>
                 (let (testCase, s1) =
                        createTestCase
                          \<lparr>itest_userId = Some (Some DEFAULT_USER_ID),
                           itest_codeSnippetId = None,
                           itest_framework = or_string (body_framework body) ''unittest'',
                           itest_testCode = testCode testResult,
                           itest_coverage = Some (Some (coverage testResult)),
                           itest_totalTests = Some (Some (totalTests testResult))\<rparr>
                          (fst (fresh 0)) (snd (fresh 0)) s
                  in \<lparr>out_response =
                         Success
                           \<lparr>tests_testCase = testCase,
                            tests_statistics =
                              \<lparr>total = totalTests testResult,
                               positive = positiveTests testResult,
                               negative = negativeTests testResult\<rparr>\<rparr>,
                       out_storage = s1, out_extracted = []\<rparr>)))"

text \<open>The body of a response, when there is one.\<close>

fun body_of :: "'a response \<Rightarrow> 'a option" where
  "body_of (Failure n e) = None"
| "body_of (Success body) = Some body"

section \<open>Observing the storage\<close>

text \<open>
  The identity of a stored record is the pair of its identifier and its creation
  timestamp (\<open>uploadedAt\<close> for a document); \<open>stamp s k key\<close> reads it from the record
  that partition \<open>k\<close> holds under \<open>key\<close>. A \<open>store_op\<close> is one call of a mutating
  operation of \<open>MemStorage\<close>; \<open>apply_op\<close> gives the storage after it.
\<close>

datatype kind = KUser | KDocument | KRequirement | KCodeSnippet | KTestCase
  | KDocumentation | KChatMessage

fun stamp ::
  "MemStorage \<Rightarrow> kind \<Rightarrow> string \<Rightarrow> (string field \<times> Date option field) option" where
  "stamp s KUser k =
     map_option (\<lambda>r. (Value (user_id r), Value (user_createdAt r))) (map_get (users s) k)"
| "stamp s KDocument k =
     map_option (\<lambda>r. (Value (doc_id r), Value (doc_uploadedAt r))) (map_get (documents s) k)"
| "stamp s KRequirement k =
     map_option (\<lambda>r. (Value (req_id r), Value (req_createdAt r)))
       (map_get (requirements s) k)"
| "stamp s KCodeSnippet k =
     map_option (\<lambda>r. (snip_id r, snip_createdAt r)) (map_get (codeSnippets s) k)"
| "stamp s KTestCase k =
     map_option (\<lambda>r. (Value (test_id r), Value (test_createdAt r))) (map_get (testCases s) k)"
| "stamp s KDocumentation k =
     map_option (\<lambda>r. (Value (docn_id r), Value (docn_createdAt r)))
       (map_get (documentations s) k)"
| "stamp s KChatMessage k =
     map_option (\<lambda>r. (Value (chat_id r), Value (chat_createdAt r)))
       (map_get (chatMessages s) k)"

datatype store_op =
    CreateUser InsertUser
  | CreateDocument InsertDocument
  | CreateRequirement InsertRequirement
  | CreateCodeSnippet InsertCodeSnippet
  | UpdateCodeSnippet string PartialCodeSnippet
  | CreateTestCase InsertTestCase
  | CreateDocumentation InsertDocumentation
  | CreateChatMessage InsertChatMessage

fun apply_op :: "store_op \<Rightarrow> string \<Rightarrow> Date \<Rightarrow> MemStorage \<Rightarrow> MemStorage" where
  "apply_op (CreateUser ins) uuid now s = snd (createUser ins uuid now s)"
| "apply_op (CreateDocument ins) uuid now s = snd (createDocument ins uuid now s)"
| "apply_op (CreateRequirement ins) uuid now s = snd (createRequirement ins uuid now s)"
| "apply_op (CreateCodeSnippet ins) uuid now s = snd (createCodeSnippet ins uuid now s)"
| "apply_op (UpdateCodeSnippet i updates) uuid now s = snd (updateCodeSnippet i updates s)"
| "apply_op (CreateTestCase ins) uuid now s = snd (createTestCase ins uuid now s)"
| "apply_op (CreateDocumentation ins) uuid now s = snd (createDocumentation ins uuid now s)"
| "apply_op (CreateChatMessage ins) uuid now s = snd (createChatMessage ins uuid now s)"

fun op_kind :: "store_op \<Rightarrow> kind" where
  "op_kind (CreateUser ins) = KUser"
| "op_kind (CreateDocument ins) = KDocument"
| "op_kind (CreateRequirement ins) = KRequirement"
| "op_kind (CreateCodeSnippet ins) = KCodeSnippet"
| "op_kind (UpdateCodeSnippet i updates) = KCodeSnippet"
| "op_kind (CreateTestCase ins) = KTestCase"
| "op_kind (CreateDocumentation ins) = KDocumentation"
| "op_kind (CreateChatMessage ins) = KChatMessage"

text \<open>
  The calls that cannot touch a stamp: an update whose argument has neither the key
  \<open>id\<close> nor the key \<open>createdAt\<close>, and a create whose identifier is not yet a key of its partition
  (what \<open>randomUUID\<close> is relied on to deliver).
\<close>

fun keeps_stamps :: "store_op \<Rightarrow> string \<Rightarrow> MemStorage \<Rightarrow> bool" where
  "keeps_stamps (UpdateCodeSnippet i updates) uuid s =
     (psnip_id updates = None \<and> psnip_createdAt updates = None)"
| "keeps_stamps op uuid s = (stamp s (op_kind op) uuid = None)"

section \<open>Sample inputs\<close>

definition sample_fresh :: "nat \<Rightarrow> string \<times> Date" where
  "sample_fresh k = (''uuid-'' @ replicate k CHR ''x'', 1000 + k)"

definition sample_snippets :: MemStorage where
  "sample_snippets =
     snd (createCodeSnippet
       \<lparr>isnip_userId = Some (Some ''default-user''), isnip_title = ''Generated python Code'',
        isnip_description = None, isnip_language = ''python'', isnip_code = ''reverse a string'',
        isnip_generatedCode = Some (Some ''def rev(s): return s[::-1]''),
        isnip_type = ''generated''\<rparr> ''snippet-1'' 1000 (new_MemStorage 0))"

definition restamp :: PartialCodeSnippet where
  "restamp =
     \<lparr>psnip_id = Some (Value ''snippet-2''), psnip_userId = None, psnip_title = None,
      psnip_description = None, psnip_language = None, psnip_code = None,
      psnip_generatedCode = None, psnip_type = None,
      psnip_createdAt = Some (Value (Some 2000))\<rparr>"

definition attach_code :: PartialCodeSnippet where
  "attach_code =
     \<lparr>psnip_id = None, psnip_userId = None, psnip_title = None,
      psnip_description = None, psnip_language = None, psnip_code = None,
      psnip_generatedCode = Some (Value (Some ''def rev(s): return s[::-1]'')),
      psnip_type = Some (Value ''fixed''),
      psnip_createdAt = None\<rparr>"

definition unset_createdAt :: PartialCodeSnippet where
  "unset_createdAt =
     \<lparr>psnip_id = None, psnip_userId = None, psnip_title = None,
      psnip_description = None, psnip_language = None, psnip_code = None,
      psnip_generatedCode = None, psnip_type = None, psnip_createdAt = Some Undefined\<rparr>"

definition sample_extractText :: "Buffer \<Rightarrow> error + PDFProcessingResult" where
  "sample_extractText buffer =
     Inr \<lparr>pdf_text = ''The system shall be patched monthly.'', pdf_pages = 1\<rparr>"

definition sample_pdf :: UploadedFile where
  "sample_pdf = \<lparr>file_filename = None, file_buffer = [0x25, 0x50, 0x44, 0x46, 0x2D, 0x31]\<rparr>"

definition gif_upload :: UploadedFile where
  "gif_upload = \<lparr>file_filename = None, file_buffer = [0x47, 0x49, 0x46, 0x38, 0x39, 0x61]\<rparr>"

definition oversized_part :: FilePart where
  "oversized_part =
     \<lparr>part_mimetype = ''application/pdf'',
      part_data = [0x25, 0x50, 0x44, 0x46] @ replicate 10485757 0\<rparr>"

definition maintenance_model :: "string \<Rightarrow> error + ClassificationReply" where
  "maintenance_model text_in =
     Inr \<lparr>reply_requirements =
            Some [\<lparr>item_text = ''The system shall be patched monthly.'',
                   item_phase = ''Maintenance'', item_confidence = 90,
                   item_userStory = ''As an operator, I want monthly patches.''\<rparr>],
          reply_statistics = None\<rparr>"

definition maintenance_requirement :: Requirement where
  "maintenance_requirement =
     \<lparr>req_id = ''uuid-x'', req_documentId = Some ''uuid-'',
      req_userId = Some ''default-user'',
      req_text = ''The system shall be patched monthly.'', req_phase = ''Maintenance'',
      req_confidence = 90,
      req_userStory = Some ''As an operator, I want monthly patches.'',
      req_createdAt = Some 1001\<rparr>"

definition design_item :: ClassificationItem where
  "design_item =
     \<lparr>item_text = ''The API shall be versioned.'', item_phase = ''Design'',
      item_confidence = 80, item_userStory = ''As a client, I want stable versions.''\<rparr>"

definition testing_item :: ClassificationItem where
  "testing_item =
     \<lparr>item_text = ''Every release shall pass regression tests.'', item_phase = ''Testing'',
      item_confidence = 85, item_userStory = ''As a tester, I want regression runs.''\<rparr>"

definition boasting_model :: "string \<Rightarrow> error + ClassificationReply" where
  "boasting_model text_in =
     Inr \<lparr>reply_requirements = Some [design_item, testing_item, design_item],
          reply_statistics =
            Some \<lparr>Requirements = 7, Design = 7, Development = 7, Testing = 7,
                  Deployment = 7\<rparr>\<rparr>"

definition boasting_result :: ClassificationResult where
  "boasting_result =
     \<lparr>cr_requirements = [design_item, testing_item, design_item],
      cr_statistics =
        \<lparr>Requirements = 0, Design = 2, Development = 0, Testing = 1, Deployment = 0\<rparr>\<rparr>"

definition fixing_model :: "string \<Rightarrow> string \<Rightarrow> error + BugFixReply" where
  "fixing_model language code =
     Inr \<lparr>reply_fixedCode = Some ''def add(a, b): return a + b'',
          reply_issues = Some [''missing operator''], reply_optimizations = None\<rparr>"

definition empty_fix_model :: "string \<Rightarrow> string \<Rightarrow> error + BugFixReply" where
  "empty_fix_model language code =
     Inr \<lparr>reply_fixedCode = Some [], reply_issues = Some [''nothing to fix''],
          reply_optimizations = Some []\<rparr>"

definition silent_fix_model :: "string \<Rightarrow> string \<Rightarrow> error + BugFixReply" where
  "silent_fix_model language code =
     Inr \<lparr>reply_fixedCode = None, reply_issues = None, reply_optimizations = None\<rparr>"

definition miscounting_model :: "string \<Rightarrow> string \<Rightarrow> string \<Rightarrow> error + TestReply" where
  "miscounting_model inputLabel framework code =
     Inr \<lparr>reply_testCode = Some ''def test_add(): assert add(1, 2) == 3'',
          reply_coverage = Some 95, reply_totalTests = Some 8,
          reply_positiveTests = Some 5, reply_negativeTests = Some 2\<rparr>"

definition terse_model :: "string \<Rightarrow> string \<Rightarrow> string \<Rightarrow> error + TestReply" where
  "terse_model inputLabel framework code =
     Inr \<lparr>reply_testCode = Some ''def test_add(): assert add(1, 2) == 3'',
          reply_coverage = None, reply_totalTests = Some 1,
          reply_positiveTests = Some 1, reply_negativeTests = None\<rparr>"

definition add_request :: TestsRequest where
  "add_request =
     \<lparr>body_code = Some ''def add(a,b): return a+b'', body_framework = Some ''pytest'',
      body_inputType = None\<rparr>"

definition terse_body :: TestsBody where
  "terse_body =
     \<lparr>tests_testCase =
        \<lparr>test_id = ''uuid-'', test_userId = Some ''default-user'',
         test_codeSnippetId = None, test_framework = ''pytest'',
         test_testCode = ''def test_add(): assert add(1, 2) == 3'',
         test_coverage = Some 0, test_totalTests = Some 1, test_createdAt = Some 1000\<rparr>,
      tests_statistics = \<lparr>total = 1, positive = 1, negative = 0\<rparr>\<rparr>"

section \<open>Lemmas on the storage and the tally\<close>

lemma map_of_map_set: "map_of (map_set m k v) = (map_of m)(k \<mapsto> v)"
  by (induction m) auto

lemma map_get_map_set:
  "map_get (map_set m k v) k' = (if k' = k then Some v else map_get m k')"
  by (simp add: map_get_def map_of_map_set)

lemma set_values_map_set:
  "x \<in> set (map_values (map_set m k v)) \<Longrightarrow> x = v \<or> x \<in> set (map_values m)"
  by (induction m) (force simp: map_values_def split: if_splits)+

lemma count_item_fields:
  "Requirements (count_item st req) =
     Requirements st + (if item_phase req = ''Requirements'' then 1 else 0)"
  "Design (count_item st req) = Design st + (if item_phase req = ''Design'' then 1 else 0)"
  "Development (count_item st req) =
     Development st + (if item_phase req = ''Development'' then 1 else 0)"
  "Testing (count_item st req) = Testing st + (if item_phase req = ''Testing'' then 1 else 0)"
  "Deployment (count_item st req) =
     Deployment st + (if item_phase req = ''Deployment'' then 1 else 0)"
  by (simp_all add: count_item_def hasOwnProperty_def increment_def phase_labels_def)

lemma forEach_count_fields:
  "Requirements (forEach_count reqs st) =
     Requirements st + int (length (filter (\<lambda>req. item_phase req = ''Requirements'') reqs))"
  "Design (forEach_count reqs st) =
     Design st + int (length (filter (\<lambda>req. item_phase req = ''Design'') reqs))"
  "Development (forEach_count reqs st) =
     Development st + int (length (filter (\<lambda>req. item_phase req = ''Development'') reqs))"
  "Testing (forEach_count reqs st) =
     Testing st + int (length (filter (\<lambda>req. item_phase req = ''Testing'') reqs))"
  "Deployment (forEach_count reqs st) =
     Deployment st + int (length (filter (\<lambda>req. item_phase req = ''Deployment'') reqs))"
  by (induction reqs arbitrary: st) (simp_all add: count_item_fields)

lemma classifyRequirements_Inr:
  assumes "classifyRequirements openai text_in = Inr r"
  obtains result where "openai text_in = Inr result"
    and "cr_requirements r = or_array (reply_requirements result) []"
    and "cr_statistics r =
           forEach_count (cr_requirements r)
             \<lparr>Requirements = 0, Design = 0, Development = 0, Testing = 0, Deployment = 0\<rparr>"
proof -
  from assms obtain result where res: "openai text_in = Inr result"
    by (auto simp: classifyRequirements_def split: sum.splits)
  with assms have
    "r = \<lparr>cr_requirements = or_array (reply_requirements result) [],
          cr_statistics =
            (case reply_requirements result of
               None \<Rightarrow>
                 \<lparr>Requirements = 0, Design = 0, Development = 0, Testing = 0, Deployment = 0\<rparr>
             | Some reqs \<Rightarrow>
                 forEach_count reqs
                   \<lparr>Requirements = 0, Design = 0, Development = 0, Testing = 0,
                    Deployment = 0\<rparr>)\<rparr>"
    by (simp add: classifyRequirements_def Let_def)
  then have "cr_requirements r = or_array (reply_requirements result) []"
    and "cr_statistics r =
           forEach_count (cr_requirements r)
             \<lparr>Requirements = 0, Design = 0, Development = 0, Testing = 0, Deployment = 0\<rparr>"
    by (cases "reply_requirements result"; simp)+
  with res show thesis by (rule that)
qed

lemma createRequirement_values:
  "q \<in> set (map_values (requirements (snd (createRequirement ins uuid now s)))) \<Longrightarrow>
   q \<in> set (map_values (requirements s)) \<or> req_phase q = ireq_phase ins"
  by (auto simp: createRequirement_def Let_def dest: set_values_map_set)

lemma save_requirements_phases:
  "q \<in> set (map_values (requirements (snd (save_requirements fresh k d items s)))) \<Longrightarrow>
   q \<in> set (map_values (requirements s)) \<or>
   (\<exists>item \<in> set items. req_phase q = item_phase item)"
proof (induction items arbitrary: k s)
  case Nil
  then show ?case by simp
next
  case (Cons item items)
  let ?ins = "\<lparr>ireq_documentId = Some (Some d), ireq_userId = Some (Some DEFAULT_USER_ID),
               ireq_text = item_text item, ireq_phase = item_phase item,
               ireq_confidence = item_confidence item,
               ireq_userStory = Some (Some (item_userStory item))\<rparr>"
  let ?s1 = "snd (createRequirement ?ins (fst (fresh k)) (snd (fresh k)) s)"
  have "snd (save_requirements fresh k d (item # items) s) =
        snd (save_requirements fresh (Suc k) d items ?s1)"
    by (simp add: Let_def split: prod.splits)
  with Cons.prems have
    "q \<in> set (map_values (requirements (snd (save_requirements fresh (Suc k) d items ?s1))))"
    by simp
  from Cons.IH [OF this] show ?case
  proof
    assume "q \<in> set (map_values (requirements ?s1))"
    from createRequirement_values [OF this] show ?thesis by auto
  next
    assume "\<exists>item \<in> set items. req_phase q = item_phase item"
    then show ?thesis by auto
  qed
qed

lemma stamp_updateCodeSnippet:
  assumes "stamp s k key = Some (i0, t0)"
  shows "stamp (snd (updateCodeSnippet i updates s)) k key =
           (if k = KCodeSnippet \<and> key = i
            then Some (spread i0 (psnip_id updates), spread t0 (psnip_createdAt updates))
            else Some (i0, t0))"
  using assms
  by (cases k)
     (auto simp: updateCodeSnippet_def merge_snippet_def map_get_map_set Let_def
        split: option.splits)

lemma upload_single_within_limit:
  assumes "upload_single part = Inr (Some f)"
  shows "isFileSizeValid (file_buffer f) None"
  using assms
  by (auto simp: upload_single_def fileSize_def isFileSizeValid_def getFileSize_def
      split: option.splits if_splits)

lemma stamp_create:
  assumes "stamp s (op_kind op) uuid = None" "stamp s k key = Some x"
    "\<forall>i updates. op \<noteq> UpdateCodeSnippet i updates"
  shows "stamp (apply_op op uuid now s) k key = Some x"
  using assms
  by (cases op; cases k)
     (auto simp: createUser_def createDocument_def createRequirement_def
        createCodeSnippet_def createTestCase_def createDocumentation_def
        createChatMessage_def map_get_map_set Let_def)

section \<open>The classification tally\<close>

text \<open>
  C1. For every reply of the model, \<open>classifyRequirements\<close> returns a result whose
  requirements list is the list of the reply (empty when the reply has none), and each
  of the five tallies of the returned statistics (Requirements, Design, Development,
  Testing, Deployment) is the number of entries of the returned list whose phase is that
  label. The tally is counted locally: replacing the statistics member of the model's
  reply by any other value, or dropping it, gives the same result.
\<close>

theorem classifyRequirements_tally:
  assumes "openai text_in = Inr result"
  shows "\<exists>r. classifyRequirements openai text_in = Inr r \<and>
           cr_requirements r = or_array (reply_requirements result) [] \<and>
           Requirements (cr_statistics r) =
             int (length (filter (\<lambda>req. item_phase req = ''Requirements'')
               (cr_requirements r))) \<and>
           Design (cr_statistics r) =
             int (length (filter (\<lambda>req. item_phase req = ''Design'') (cr_requirements r))) \<and>
           Development (cr_statistics r) =
             int (length (filter (\<lambda>req. item_phase req = ''Development'')
               (cr_requirements r))) \<and>
           Testing (cr_statistics r) =
             int (length (filter (\<lambda>req. item_phase req = ''Testing'') (cr_requirements r))) \<and>
           Deployment (cr_statistics r) =
             int (length (filter (\<lambda>req. item_phase req = ''Deployment'')
               (cr_requirements r))) \<and>
           (\<forall>theirs.
              classifyRequirements
                (\<lambda>t. case openai t of
                        Inl e \<Rightarrow> Inl e
                      | Inr reply \<Rightarrow> Inr (reply\<lparr>reply_statistics := theirs\<rparr>))
                text_in = Inr r)"
proof -
  from assms obtain r where r: "classifyRequirements openai text_in = Inr r"
    by (simp add: classifyRequirements_def Let_def)
  then obtain result' where "openai text_in = Inr result'"
    and "cr_requirements r = or_array (reply_requirements result') []"
    and st: "cr_statistics r =
               forEach_count (cr_requirements r)
                 \<lparr>Requirements = 0, Design = 0, Development = 0, Testing = 0, Deployment = 0\<rparr>"
    by (rule classifyRequirements_Inr)
  with assms have items: "cr_requirements r = or_array (reply_requirements result) []"
    by simp
  have "classifyRequirements
          (\<lambda>t. case openai t of
                  Inl e \<Rightarrow> Inl e
                | Inr reply \<Rightarrow> Inr (reply\<lparr>reply_statistics := theirs\<rparr>))
          text_in = Inr r" for theirs
    using r assms by (simp add: classifyRequirements_def Let_def)
  with r items show ?thesis
    by (simp add: st forEach_count_fields)
qed

theorem classifyRequirements_tally_witness:
  "boasting_model ''spec'' =
     Inr \<lparr>reply_requirements = Some [design_item, testing_item, design_item],
          reply_statistics =
            Some \<lparr>Requirements = 7, Design = 7, Development = 7, Testing = 7,
                  Deployment = 7\<rparr>\<rparr> \<and>
   classifyRequirements boasting_model ''spec'' = Inr boasting_result \<and>
   Design (cr_statistics boasting_result) = 2 \<and>
   Testing (cr_statistics boasting_result) = 1 \<and>
   (\<exists>r. classifyRequirements boasting_model ''spec'' = Inr r \<and>
      Design (cr_statistics r) =
        int (length (filter (\<lambda>req. item_phase req = ''Design'') (cr_requirements r))))"
proof -
  have h: "boasting_model ''spec'' =
     Inr \<lparr>reply_requirements = Some [design_item, testing_item, design_item],
          reply_statistics =
            Some \<lparr>Requirements = 7, Design = 7, Development = 7, Testing = 7,
                  Deployment = 7\<rparr>\<rparr>"
    by (simp add: boasting_model_def)
  have c: "classifyRequirements boasting_model ''spec'' = Inr boasting_result"
    by (simp add: classifyRequirements_def boasting_model_def boasting_result_def
        count_item_def hasOwnProperty_def increment_def phase_labels_def design_item_def
        testing_item_def Let_def)
  from classifyRequirements_tally [where openai = boasting_model and text_in = "''spec''", OF h]
  have "\<exists>r. classifyRequirements boasting_model ''spec'' = Inr r \<and>
      Design (cr_statistics r) =
        int (length (filter (\<lambda>req. item_phase req = ''Design'') (cr_requirements r)))"
    by blast
  with h c show ?thesis
    by (simp add: boasting_result_def)
qed

section \<open>The default of the fixed code\<close>

text \<open>
  A reply that carries the empty string as its corrected code does not get it back:
  \<open>result.fixedCode || code\<close> takes the empty string for missing and returns the input.
\<close>

theorem fixBugs_empty_fixedCode_counterexample:
  "empty_fix_model (default_arg None ''python'') ''x = 1'' =
     Inr \<lparr>reply_fixedCode = Some [], reply_issues = Some [''nothing to fix''],
          reply_optimizations = Some []\<rparr> \<and>
   fixBugs empty_fix_model ''x = 1'' None =
     Inr \<lparr>fixedCode = ''x = 1'', issues = [''nothing to fix''], optimizations = []\<rparr> \<and>
   ''x = 1'' \<noteq> ([] :: string)"
  by (simp add: fixBugs_def empty_fix_model_def Let_def)

text \<open>
  C2 (amended). For every input code and every reply of the model, \<open>fixBugs\<close> returns a
  result whose \<open>fixedCode\<close> is the corrected code of the reply when the reply carries a
  non-empty one, and exactly the input code otherwise, that is when the member is
  missing or is the empty string.
\<close>

theorem fixBugs_fixedCode_default:
  assumes "openai (default_arg language ''python'') code = Inr result"
  shows "\<exists>r. fixBugs openai code language = Inr r \<and>
           (\<forall>c. reply_fixedCode result = Some c \<and> c \<noteq> [] \<longrightarrow> fixedCode r = c) \<and>
           (reply_fixedCode result = None \<or> reply_fixedCode result = Some [] \<longrightarrow>
              fixedCode r = code)"
  using assms by (auto simp: fixBugs_def Let_def)

theorem fixBugs_fixedCode_default_witness:
  "(\<exists>result. fixing_model (default_arg None ''python'') ''def add(a, b): return a b'' =
      Inr result \<and> reply_fixedCode result = Some ''def add(a, b): return a + b'') \<and>
   (\<exists>r. fixBugs fixing_model ''def add(a, b): return a b'' None = Inr r \<and>
      fixedCode r = ''def add(a, b): return a + b'') \<and>
   (\<exists>result. silent_fix_model (default_arg (Some ''go'') ''python'') ''x := 1'' = Inr result \<and>
      reply_fixedCode result = None) \<and>
   (\<exists>r. fixBugs silent_fix_model ''x := 1'' (Some ''go'') = Inr r \<and> fixedCode r = ''x := 1'') \<and>
   (\<exists>result. empty_fix_model (default_arg None ''python'') ''x = 1'' = Inr result \<and>
      reply_fixedCode result = Some []) \<and>
   (\<exists>r. fixBugs empty_fix_model ''x = 1'' None = Inr r \<and> fixedCode r = ''x = 1'')"
proof -
  have h1: "fixing_model (default_arg None ''python'') ''def add(a, b): return a b'' =
      Inr \<lparr>reply_fixedCode = Some ''def add(a, b): return a + b'',
           reply_issues = Some [''missing operator''], reply_optimizations = None\<rparr>"
    by (simp add: fixing_model_def)
  have h2: "silent_fix_model (default_arg (Some ''go'') ''python'') ''x := 1'' =
      Inr \<lparr>reply_fixedCode = None, reply_issues = None, reply_optimizations = None\<rparr>"
    by (simp add: silent_fix_model_def)
  have h3: "empty_fix_model (default_arg None ''python'') ''x = 1'' =
      Inr \<lparr>reply_fixedCode = Some [], reply_issues = Some [''nothing to fix''],
           reply_optimizations = Some []\<rparr>"
    by (simp add: empty_fix_model_def)
  show ?thesis
    using fixBugs_fixedCode_default
        [where openai = fixing_model and language = None
           and code = "''def add(a, b): return a b''", OF h1]
      fixBugs_fixedCode_default
        [where openai = silent_fix_model and language = "Some ''go''"
           and code = "''x := 1''", OF h2]
      fixBugs_fixedCode_default
        [where openai = empty_fix_model and language = None
           and code = "''x = 1''", OF h3] h1 h2 h3
    by auto
qed

section \<open>The statistics of generated tests\<close>

text \<open>
  The statistics of the response of \<open>POST /api/tests/generate\<close> need not add up: when the
  model reports 8 tests, 5 of them positive and 2 negative, the response says so.
\<close>

theorem tests_statistics_counterexample:
  "map_option tests_statistics
     (body_of (out_response
        (tests_handler miscounting_model sample_fresh add_request (new_MemStorage 0)))) =
     Some \<lparr>total = 8, positive = 5, negative = 2\<rparr> \<and> (8 :: int) \<noteq> 5 + 2"
  by (simp add: tests_handler_def generateTestCases_def miscounting_model_def add_request_def
      createTestCase_def Let_def)

text \<open>
  C3 (amended). Every successful response of \<open>POST /api/tests/generate\<close> carries in
  \<open>statistics.total\<close>, \<open>statistics.positive\<close> and \<open>statistics.negative\<close> the model's
  \<open>totalTests\<close>, \<open>positiveTests\<close> and \<open>negativeTests\<close>, each replaced by 0 when it is
  missing or zero and otherwise unchanged; the handler computes none of them from the
  others, so the total is the sum of the other two exactly when the model's numbers
  are.
\<close>

theorem tests_statistics_from_model:
  assumes "out_response (tests_handler openai fresh body s) = Success b"
  shows "\<exists>code result.
           body_code body = Some code \<and>
           openai (if default_arg (body_inputType body) ''code'' = ''code''
                   then ''code'' else ''requirements'')
             (default_arg (body_framework body) ''unittest'') code = Inr result \<and>
           total (tests_statistics b) = or_number (reply_totalTests result) 0 \<and>
           positive (tests_statistics b) = or_number (reply_positiveTests result) 0 \<and>
           negative (tests_statistics b) = or_number (reply_negativeTests result) 0 \<and>
           (total (tests_statistics b) =
              positive (tests_statistics b) + negative (tests_statistics b) \<longleftrightarrow>
            or_number (reply_totalTests result) 0 =
              or_number (reply_positiveTests result) 0 +
              or_number (reply_negativeTests result) 0)"
  using assms
  by (auto simp: tests_handler_def generateTestCases_def code_required_def createTestCase_def
      Let_def split: option.splits if_splits sum.splits)

theorem tests_statistics_from_model_witness:
  "out_response (tests_handler terse_model sample_fresh add_request (new_MemStorage 0)) =
     Success terse_body \<and>
   (\<exists>code result.
      body_code add_request = Some code \<and>
      terse_model (if default_arg (body_inputType add_request) ''code'' = ''code''
                   then ''code'' else ''requirements'')
        (default_arg (body_framework add_request) ''unittest'') code = Inr result \<and>
      total (tests_statistics terse_body) = or_number (reply_totalTests result) 0 \<and>
      positive (tests_statistics terse_body) = or_number (reply_positiveTests result) 0 \<and>
      negative (tests_statistics terse_body) = or_number (reply_negativeTests result) 0)"
proof -
  have h: "out_response (tests_handler terse_model sample_fresh add_request (new_MemStorage 0)) =
     Success terse_body"
    by (simp add: tests_handler_def generateTestCases_def terse_model_def add_request_def
        createTestCase_def terse_body_def sample_fresh_def DEFAULT_USER_ID_def Let_def)
  show ?thesis
    using h tests_statistics_from_model [OF h] by blast
qed

section \<open>The phase of a persisted requirement\<close>

text \<open>
  The upload handler persists a requirement whose phase is none of the five labels when
  the model classifies a sentence so.
\<close>

theorem upload_phase_counterexample:
  "map req_phase (map_values (requirements (out_storage
      (upload_handler sample_extractText maintenance_model sample_fresh (Some sample_pdf)
         (new_MemStorage 0))))) = [''Maintenance''] \<and>
   ''Maintenance'' \<notin> set phase_labels"
  by (simp add: upload_handler_def validatePDF_def pdf_signature_def isFileSizeValid_def
      getFileSize_def sample_pdf_def sample_extractText_def maintenance_model_def
      classifyRequirements_def createDocument_def createRequirement_def new_MemStorage_def
      count_item_def hasOwnProperty_def phase_labels_def map_values_def Let_def)

text \<open>
  C4 (amended). Every Requirement record that the upload handler persists has the phase
  of an entry of the classification result the orchestration service returned, copied
  unchanged and not validated: it is one of the five labels exactly when the model
  chose one of them for that entry.
\<close>

theorem upload_persists_item_phase:
  assumes "q \<in> set (map_values (requirements (out_storage
             (upload_handler extractText openai fresh file s))))"
  shows "q \<in> set (map_values (requirements s)) \<or>
         (\<exists>f pdf result item.
            file = Some f \<and> extractText (file_buffer f) = Inr pdf \<and>
            openai (pdf_text pdf) = Inr result \<and>
            item \<in> set (or_array (reply_requirements result) []) \<and>
            req_phase q = item_phase item \<and>
            (req_phase q \<in> set phase_labels \<longleftrightarrow> item_phase item \<in> set phase_labels))"
proof (cases "q \<in> set (map_values (requirements s))")
  case True
  then show ?thesis by simp
next
  case False
  with assms obtain f pdf cr where f: "file = Some f"
    and pdf: "extractText (file_buffer f) = Inr pdf"
    and cr: "classifyRequirements openai (pdf_text pdf) = Inr cr"
    and q: "q \<in> set (map_values (requirements (snd
              (save_requirements fresh 1 (fst (fresh 0)) (cr_requirements cr)
                 (snd (createDocument
                    \<lparr>idoc_userId = Some (Some DEFAULT_USER_ID),
                     idoc_filename = or_string (file_filename f) ''uploaded.pdf'',
                     idoc_content = pdf_text pdf\<rparr> (fst (fresh 0)) (snd (fresh 0)) s))))))"
    by (auto simp: upload_handler_def Let_def createDocument_def
        split: option.splits if_splits sum.splits prod.splits)
  from cr obtain result where res: "openai (pdf_text pdf) = Inr result"
    and items: "cr_requirements cr = or_array (reply_requirements result) []"
    by (rule classifyRequirements_Inr)
  from save_requirements_phases [OF q] False
  obtain item where "item \<in> set (cr_requirements cr)" "req_phase q = item_phase item"
    by (auto simp: createDocument_def Let_def)
  with f pdf res items show ?thesis by auto
qed

theorem upload_persists_item_phase_witness:
  "maintenance_requirement \<in> set (map_values (requirements (out_storage
      (upload_handler sample_extractText maintenance_model sample_fresh (Some sample_pdf)
         (new_MemStorage 0))))) \<and>
   maintenance_requirement \<notin> set (map_values (requirements (new_MemStorage 0))) \<and>
   (\<exists>f pdf result item.
      Some sample_pdf = Some f \<and> sample_extractText (file_buffer f) = Inr pdf \<and>
      maintenance_model (pdf_text pdf) = Inr result \<and>
      item \<in> set (or_array (reply_requirements result) []) \<and>
      req_phase maintenance_requirement = item_phase item)"
proof -
  have h: "maintenance_requirement \<in> set (map_values (requirements (out_storage
      (upload_handler sample_extractText maintenance_model sample_fresh (Some sample_pdf)
         (new_MemStorage 0)))))"
    by (simp add: upload_handler_def validatePDF_def pdf_signature_def isFileSizeValid_def
        getFileSize_def sample_pdf_def sample_extractText_def maintenance_model_def
        classifyRequirements_def createDocument_def createRequirement_def new_MemStorage_def
        count_item_def hasOwnProperty_def phase_labels_def map_values_def Let_def
        maintenance_requirement_def sample_fresh_def DEFAULT_USER_ID_def)
  have n: "maintenance_requirement \<notin> set (map_values (requirements (new_MemStorage 0)))"
    by (simp add: new_MemStorage_def map_values_def)
  show ?thesis
    using h n upload_persists_item_phase [OF h] by blast
qed


section \<open>Identifier and creation timestamp of a stored record\<close>

text \<open>
  \<open>updateCodeSnippet\<close> merges whatever its argument carries: given an \<open>id\<close> and a
  \<open>createdAt\<close>, it overwrites both in the record stored under the old key.
\<close>

theorem updateCodeSnippet_restamps_counterexample:
  "stamp sample_snippets KCodeSnippet ''snippet-1'' =
     Some (Value ''snippet-1'', Value (Some 1000)) \<and>
   stamp (snd (updateCodeSnippet ''snippet-1'' restamp sample_snippets))
     KCodeSnippet ''snippet-1'' = Some (Value ''snippet-2'', Value (Some 2000))"
  by (simp add: sample_snippets_def restamp_def createCodeSnippet_def updateCodeSnippet_def
      merge_snippet_def new_MemStorage_def map_get_def Let_def)

text \<open>
  C5 (amended). For every stored record, of every kind, the identifier and the creation
  timestamp set at creation are left unchanged by every create operation that draws an
  identifier not yet in use in its partition, and by \<open>updateCodeSnippet\<close> whenever its
  partial-fields argument has neither the key \<open>id\<close> nor the key \<open>createdAt\<close>. Whatever
  its argument, \<open>updateCodeSnippet\<close> changes the identifier and timestamp of no record but
  the snippet it updates, and there it replaces each of the two by what the argument
  has under that key, be it a value or \<open>undefined\<close>, and keeps it when the argument
  lacks the key.
\<close>

theorem stamps_kept:
  assumes "stamp s k key = Some (i0, t0)"
  shows "(keeps_stamps op uuid s \<longrightarrow> stamp (apply_op op uuid now s) k key = Some (i0, t0)) \<and>
         stamp (snd (updateCodeSnippet i updates s)) k key =
           (if k = KCodeSnippet \<and> key = i
            then Some (spread i0 (psnip_id updates), spread t0 (psnip_createdAt updates))
            else Some (i0, t0))"
proof (intro conjI impI)
  assume keeps: "keeps_stamps op uuid s"
  show "stamp (apply_op op uuid now s) k key = Some (i0, t0)"
  proof (cases "\<exists>j u. op = UpdateCodeSnippet j u")
    case True
    then obtain j u where op: "op = UpdateCodeSnippet j u" by blast
    with keeps have "psnip_id u = None" "psnip_createdAt u = None" by simp_all
    with op stamp_updateCodeSnippet [OF assms, of j u] show ?thesis by simp
  next
    case False
    with keeps have "stamp s (op_kind op) uuid = None" by (cases op) simp_all
    with assms False show ?thesis by (intro stamp_create) auto
  qed
next
  show "stamp (snd (updateCodeSnippet i updates s)) k key =
           (if k = KCodeSnippet \<and> key = i
            then Some (spread i0 (psnip_id updates), spread t0 (psnip_createdAt updates))
            else Some (i0, t0))"
    by (rule stamp_updateCodeSnippet [OF assms])
qed

theorem stamps_kept_witness:
  "stamp sample_snippets KCodeSnippet ''snippet-1'' =
     Some (Value ''snippet-1'', Value (Some 1000)) \<and>
   keeps_stamps (UpdateCodeSnippet ''snippet-1'' attach_code) [] sample_snippets \<and>
   stamp (apply_op (UpdateCodeSnippet ''snippet-1'' attach_code) [] 3000 sample_snippets)
     KCodeSnippet ''snippet-1'' = Some (Value ''snippet-1'', Value (Some 1000)) \<and>
   map_option snip_type (getCodeSnippet sample_snippets ''snippet-1'') =
     Some (Value ''generated'') \<and>
   map_option snip_type
     (getCodeSnippet
        (apply_op (UpdateCodeSnippet ''snippet-1'' attach_code) [] 3000 sample_snippets)
        ''snippet-1'') = Some (Value ''fixed'') \<and>
   stamp (snd (updateCodeSnippet ''snippet-1'' unset_createdAt sample_snippets))
     KCodeSnippet ''snippet-1'' = Some (Value ''snippet-1'', Undefined) \<and>
   stamp (snd (updateCodeSnippet ''snippet-1'' unset_createdAt sample_snippets))
     KUser ''default-user'' = stamp sample_snippets KUser ''default-user''"
proof -
  have h: "keeps_stamps (UpdateCodeSnippet ''snippet-1'' attach_code) [] sample_snippets"
    by (simp add: attach_code_def)
  have st: "stamp sample_snippets KCodeSnippet ''snippet-1'' =
      Some (Value ''snippet-1'', Value (Some 1000))"
    by (simp add: sample_snippets_def createCodeSnippet_def new_MemStorage_def map_get_def
        Let_def)
  have us: "stamp sample_snippets KUser ''default-user'' =
      Some (Value ''default-user'', Value (Some 0))"
    by (simp add: sample_snippets_def createCodeSnippet_def new_MemStorage_def map_get_def
        Let_def)
  have ty: "map_option snip_type (getCodeSnippet sample_snippets ''snippet-1'') =
        Some (Value ''generated'') \<and>
      map_option snip_type
        (getCodeSnippet
          (apply_op (UpdateCodeSnippet ''snippet-1'' attach_code) [] 3000 sample_snippets)
          ''snippet-1'') = Some (Value ''fixed'')"
    by (simp add: sample_snippets_def createCodeSnippet_def new_MemStorage_def map_get_def
        getCodeSnippet_def updateCodeSnippet_def merge_snippet_def attach_code_def Let_def)
  have k: "stamp (apply_op (UpdateCodeSnippet ''snippet-1'' attach_code) [] 3000 sample_snippets)
      KCodeSnippet ''snippet-1'' = Some (Value ''snippet-1'', Value (Some 1000))"
    using h stamps_kept [OF st, of "UpdateCodeSnippet ''snippet-1'' attach_code" "[]" 3000]
    by blast
  have e: "spread (Value ''snippet-1'') (psnip_id unset_createdAt) = Value ''snippet-1''"
    "spread (Value (Some 1000)) (psnip_createdAt unset_createdAt) = Undefined"
    by (simp_all add: unset_createdAt_def)
  have "stamp (snd (updateCodeSnippet ''snippet-1'' unset_createdAt sample_snippets))
      KCodeSnippet ''snippet-1'' =
      (if KCodeSnippet = KCodeSnippet \<and> ''snippet-1'' = ''snippet-1''
       then Some (spread (Value ''snippet-1'') (psnip_id unset_createdAt),
                  spread (Value (Some 1000)) (psnip_createdAt unset_createdAt))
       else Some (Value ''snippet-1'', Value (Some 1000)))"
    using stamps_kept [OF st, of "UpdateCodeSnippet ''snippet-1'' attach_code" "[]" 3000
        "''snippet-1''" unset_createdAt]
    by blast
  then have u: "stamp (snd (updateCodeSnippet ''snippet-1'' unset_createdAt sample_snippets))
      KCodeSnippet ''snippet-1'' = Some (Value ''snippet-1'', Undefined)"
    by (simp only: e simp_thms if_True)
  have "stamp (snd (updateCodeSnippet ''snippet-1'' unset_createdAt sample_snippets))
      KUser ''default-user'' =
      (if KUser = KCodeSnippet \<and> ''default-user'' = ''snippet-1''
       then Some (spread (Value ''default-user'') (psnip_id unset_createdAt),
                  spread (Value (Some 0)) (psnip_createdAt unset_createdAt))
       else Some (Value ''default-user'', Value (Some 0)))"
    using stamps_kept [OF us, of "UpdateCodeSnippet ''snippet-1'' attach_code" "[]" 3000
        "''snippet-1''" unset_createdAt]
    by blast
  then have w: "stamp (snd (updateCodeSnippet ''snippet-1'' unset_createdAt sample_snippets))
      KUser ''default-user'' = stamp sample_snippets KUser ''default-user''"
    by (simp only: us kind.distinct simp_thms if_False)
  from st h k ty u w show ?thesis by blast
qed

section \<open>Updating a snippet that is not stored\<close>

text \<open>
  C6. For every storage and every identifier under which the code-snippet partition
  holds nothing, \<open>updateCodeSnippet\<close> with that identifier and any partial-fields
  argument returns absent (\<open>undefined\<close>) and leaves the whole storage, every partition
  and every record, as it was.
\<close>

theorem updateCodeSnippet_absent:
  assumes "getCodeSnippet s i = None"
  shows "updateCodeSnippet i updates s = (None, s)"
  using assms by (simp add: updateCodeSnippet_def getCodeSnippet_def)

theorem updateCodeSnippet_absent_witness:
  "getCodeSnippet sample_snippets ''snippet-7'' = None \<and>
   updateCodeSnippet ''snippet-7'' restamp sample_snippets = (None, sample_snippets)"
proof -
  have h: "getCodeSnippet sample_snippets ''snippet-7'' = None"
    by (simp add: getCodeSnippet_def sample_snippets_def createCodeSnippet_def
        new_MemStorage_def map_get_def Let_def)
  show ?thesis
    using h updateCodeSnippet_absent [OF h] by simp
qed

section \<open>Reading back what was created\<close>

text \<open>
  C7. For every storage and every insert payload, a create operation followed by the
  matching read by identifier, with the identifier of the record that create returned,
  gives back exactly that record; its optional fields are those of the payload, with
  \<open>null\<close> where the payload has none. This holds for the three kinds that have a read by
  identifier: users, documents and code snippets.
\<close>

theorem create_then_getById:
  "(case createUser insertUser uuid now s of
      (user, s') \<Rightarrow> getUser s' (user_id user) = Some user) \<and>
   (case createDocument insertDocument uuid now s of
      (document, s') \<Rightarrow>
        getDocument s' (doc_id document) = Some document \<and>
        doc_userId document = or_null (idoc_userId insertDocument)) \<and>
   (case createCodeSnippet insertSnippet uuid now s of
      (snippet, s') \<Rightarrow>
        snip_id snippet = Value uuid \<and> getCodeSnippet s' uuid = Some snippet \<and>
        snip_userId snippet = Value (or_null (isnip_userId insertSnippet)) \<and>
        snip_description snippet = Value (or_null (isnip_description insertSnippet)) \<and>
        snip_generatedCode snippet = Value (or_null (isnip_generatedCode insertSnippet)))"
  by (simp add: createUser_def getUser_def createDocument_def getDocument_def
      createCodeSnippet_def getCodeSnippet_def map_get_map_set Let_def)

theorem create_then_getById_witness:
  "map_option snip_description (getCodeSnippet sample_snippets ''snippet-1'') =
     Some (Value None) \<and>
   map_option snip_generatedCode (getCodeSnippet sample_snippets ''snippet-1'') =
     Some (Value (Some ''def rev(s): return s[::-1]''))"
  using create_then_getById
    [where insertSnippet =
       "\<lparr>isnip_userId = Some (Some ''default-user''), isnip_title = ''Generated python Code'',
         isnip_description = None, isnip_language = ''python'',
         isnip_code = ''reverse a string'',
         isnip_generatedCode = Some (Some ''def rev(s): return s[::-1]''),
         isnip_type = ''generated''\<rparr>"
       and uuid = "''snippet-1''" and now = 1000 and s = "new_MemStorage 0"]
  by (simp add: sample_snippets_def createCodeSnippet_def Let_def split: prod.splits)

section \<open>The checks of the upload handler\<close>

text \<open>
  C8. For every uploaded buffer whose first four bytes are not the signature \<open>%PDF\<close>
  (0x25 0x50 0x44 0x46), the upload handler answers with status 400, leaves the storage
  as it was, so that no Document is created, and does not call \<open>extractText\<close>.
\<close>

theorem upload_rejects_bad_signature:
  assumes "take 4 (file_buffer f) \<noteq> [0x25, 0x50, 0x44, 0x46]"
  shows "status (out_response (upload_handler extractText openai fresh (Some f) s)) = 400 \<and>
         out_storage (upload_handler extractText openai fresh (Some f) s) = s \<and>
         out_extracted (upload_handler extractText openai fresh (Some f) s) = []"
  using assms by (simp add: upload_handler_def validatePDF_def pdf_signature_def Let_def)

theorem upload_rejects_bad_signature_witness:
  "take 4 (file_buffer gif_upload) \<noteq> [0x25, 0x50, 0x44, 0x46] \<and>
   status (out_response
     (upload_handler sample_extractText maintenance_model sample_fresh (Some gif_upload)
        (new_MemStorage 0))) = 400 \<and>
   out_storage
     (upload_handler sample_extractText maintenance_model sample_fresh (Some gif_upload)
        (new_MemStorage 0)) = new_MemStorage 0 \<and>
   out_extracted
     (upload_handler sample_extractText maintenance_model sample_fresh (Some gif_upload)
        (new_MemStorage 0)) = []"
proof -
  have h: "take 4 (file_buffer gif_upload) \<noteq> [0x25, 0x50, 0x44, 0x46]"
    by (simp add: gif_upload_def)
  show ?thesis
    using h upload_rejects_bad_signature [OF h] by simp
qed

text \<open>
  Such a buffer does reach the handler: the route passes on every file part that is
  labelled \<open>application/pdf\<close> and within the size limit, whatever its bytes.
\<close>

lemma route_reaches_handler:
  assumes "part_mimetype p = ''application/pdf''" and "length (part_data p) \<le> 10 * 1024 * 1024"
  shows "upload_route extractText openai fresh (Some p) s =
         upload_handler extractText openai fresh
           (Some \<lparr>file_filename = None, file_buffer = part_data p\<rparr>) s"
  using assms by (simp add: upload_route_def upload_single_def fileFilter_def fileSize_def)

text \<open>
  The handler has a branch of its own for a buffer over the default maximum, which
  answers 400 before extraction. No request reaches it: every buffer that the route
  hands to the handler is within the limit.
\<close>

lemma handler_rejects_oversized:
  assumes "10 * 1024 * 1024 < length (file_buffer f)"
  shows "status (out_response (upload_handler extractText openai fresh (Some f) s)) = 400 \<and>
         out_storage (upload_handler extractText openai fresh (Some f) s) = s \<and>
         out_extracted (upload_handler extractText openai fresh (Some f) s) = []"
  using assms by (simp add: upload_handler_def isFileSizeValid_def getFileSize_def Let_def)

text \<open>
  C9. For every uploaded file longer than the default maximum of 10 MiB
  (10 * 1024 * 1024 bytes), the route does refuse the upload before extraction, with
  \<open>extractText\<close> not called and no Document created, but the status it answers with is
  500 and not a 4xx: multer's size limit stops the request, and the handler, which
  would answer 400 for the same buffer, does not run.
\<close>

theorem oversized_upload_answered_500:
  assumes "10 * 1024 * 1024 < length (part_data p)"
  shows "status (out_response (upload_route extractText openai fresh (Some p) s)) = 500 \<and>
         out_storage (upload_route extractText openai fresh (Some p) s) = s \<and>
         out_extracted (upload_route extractText openai fresh (Some p) s) = [] \<and>
         status (out_response
           (upload_handler extractText openai fresh
              (Some \<lparr>file_filename = None, file_buffer = part_data p\<rparr>) s)) = 400"
proof -
  have "upload_single (Some p) = Inl (Error ''Only PDF files are allowed'') \<or>
        upload_single (Some p) = Inl (Error ''File too large'')"
    using assms by (simp add: upload_single_def fileFilter_def fileSize_def)
  then have "upload_route extractText openai fresh (Some p) s =
      \<lparr>out_response = Failure 500 ''Only PDF files are allowed'', out_storage = s,
       out_extracted = []\<rparr> \<or>
    upload_route extractText openai fresh (Some p) s =
      \<lparr>out_response = Failure 500 ''File too large'', out_storage = s,
       out_extracted = []\<rparr>"
    by (auto simp: upload_route_def)
  moreover have "status (out_response
           (upload_handler extractText openai fresh
              (Some \<lparr>file_filename = None, file_buffer = part_data p\<rparr>) s)) = 400"
    using assms
    by (simp add: handler_rejects_oversized
        [where f = "\<lparr>file_filename = None, file_buffer = part_data p\<rparr>"])
  ultimately show ?thesis by auto
qed

theorem oversized_upload_answered_500_witness:
  "10 * 1024 * 1024 < length (part_data oversized_part) \<and>
   validatePDF (part_data oversized_part) \<and>
   upload_route sample_extractText maintenance_model sample_fresh (Some oversized_part)
     (new_MemStorage 0) =
     \<lparr>out_response = Failure 500 ''File too large'', out_storage = new_MemStorage 0,
      out_extracted = []\<rparr> \<and>
   status (out_response
     (upload_route sample_extractText maintenance_model sample_fresh (Some oversized_part)
        (new_MemStorage 0))) = 500 \<and>
   out_response
     (upload_handler sample_extractText maintenance_model sample_fresh
        (Some \<lparr>file_filename = None, file_buffer = part_data oversized_part\<rparr>)
        (new_MemStorage 0)) = Failure 400 ''File size exceeds 10MB limit''"
proof -
  have h: "10 * 1024 * 1024 < length (part_data oversized_part)"
    by (simp add: oversized_part_def)
  have v: "validatePDF (part_data oversized_part)"
    by (simp add: oversized_part_def validatePDF_def pdf_signature_def)
  have r: "upload_route sample_extractText maintenance_model sample_fresh (Some oversized_part)
     (new_MemStorage 0) =
     \<lparr>out_response = Failure 500 ''File too large'', out_storage = new_MemStorage 0,
      out_extracted = []\<rparr>"
    using h
    by (simp add: upload_route_def upload_single_def fileFilter_def fileSize_def
        oversized_part_def)
  have a: "out_response
     (upload_handler sample_extractText maintenance_model sample_fresh
        (Some \<lparr>file_filename = None, file_buffer = part_data oversized_part\<rparr>)
        (new_MemStorage 0)) = Failure 400 ''File size exceeds 10MB limit''"
    using h v by (simp add: upload_handler_def isFileSizeValid_def getFileSize_def Let_def)
  show ?thesis
    using h v r a oversized_upload_answered_500 [OF h] by simp
qed

text \<open>
  C10. The size limit is inclusive: a buffer of exactly 10 * 1024 * 1024 bytes passes
  \<open>isFileSizeValid\<close> with the default maximum, and with that default a buffer is
  refused exactly when it is strictly longer.
\<close>

theorem isFileSizeValid_boundary_inclusive:
  "(length buffer = 10 * 1024 * 1024 \<longrightarrow> isFileSizeValid buffer None) \<and>
   (\<not> isFileSizeValid buffer None \<longleftrightarrow> 10 * 1024 * 1024 < length buffer)"
  by (auto simp add: isFileSizeValid_def getFileSize_def)

theorem isFileSizeValid_boundary_inclusive_witness:
  "length (replicate 10485760 (0 :: 8 word)) = 10 * 1024 * 1024 \<and>
   isFileSizeValid (replicate 10485760 0) None \<and>
   \<not> isFileSizeValid (replicate 10485761 0) None"
  using isFileSizeValid_boundary_inclusive [of "replicate 10485760 0"]
    isFileSizeValid_boundary_inclusive [of "replicate 10485761 0"]
  by simp

end
